theory Spec2Isabelle
  imports Complex_Main
begin

section \<open>Python values\<close>

text \<open>
  The fields of a \<^verbatim>\<open>Config\<close> object are dynamically typed: the constructor stores
  whatever it is given and \<^verbatim>\<open>validate\<close> tests the values at run time. The universe below
  holds the values the checks of \<^verbatim>\<open>config.py\<close> tell apart: \<^verbatim>\<open>None\<close>, booleans, integers,
  finite floats (by their rational value), strings, lists, dictionaries (as association
  lists), instances of a subclass of \<^verbatim>\<open>dict\<close> such as \<^verbatim>\<open>OrderedDict\<close> (by the name of the
  subclass and the items), functions, classes, instances of other classes (by the name
  of the class and a name for the object, such as a \<^verbatim>\<open>Jitter\<close>), and the \<^verbatim>\<open>Callback\<close>
  wrapper. Subclasses of \<^verbatim>\<open>int\<close> other than \<^verbatim>\<open>bool\<close>, subclasses of \<^verbatim>\<open>str\<close>, bytes and path
  objects are not part of it.
\<close>

datatype pyval =
    PNone
  | PBool bool
  | PInt int
  | PFloat rat
  | PStr string
  | PList "pyval list"
  | PDict "(pyval \<times> pyval) list"
  | PDictSubclass string "(pyval \<times> pyval) list"
  | PFunction string
  | PClass string
  | PObject string string
  | PCallback pyval pyval

datatype pyclass =
    C_NoneType | C_bool | C_int | C_float | C_str | C_list | C_dict | C_dict_subclass string
  | C_function | C_type | C_instance string | C_Callback

text \<open>
  \<^verbatim>\<open>x.__class__\<close> and \<^verbatim>\<open>type(x)\<close>. The class of \<^verbatim>\<open>True\<close> is \<^verbatim>\<open>bool\<close>, not \<^verbatim>\<open>int\<close>, and the class
  of an \<^verbatim>\<open>OrderedDict\<close> is \<^verbatim>\<open>OrderedDict\<close>, not \<^verbatim>\<open>dict\<close>.
\<close>

definition class_of :: "pyval \<Rightarrow> pyclass" where
  "class_of v =
     (case v of
        PNone \<Rightarrow> C_NoneType
      | PBool b \<Rightarrow> C_bool
      | PInt n \<Rightarrow> C_int
      | PFloat r \<Rightarrow> C_float
      | PStr s \<Rightarrow> C_str
      | PList xs \<Rightarrow> C_list
      | PDict kvs \<Rightarrow> C_dict
      | PDictSubclass k kvs \<Rightarrow> C_dict_subclass k
      | PFunction f \<Rightarrow> C_function
      | PClass k \<Rightarrow> C_type
      | PObject k n \<Rightarrow> C_instance k
      | PCallback cb j \<Rightarrow> C_Callback)"

text \<open>
  Truth value testing, as \<^verbatim>\<open>assert x\<close> and \<^verbatim>\<open>if x:\<close> do it: \<^verbatim>\<open>None\<close>, \<^verbatim>\<open>False\<close>, zero and
  the empty string, list and dictionary (of a subclass too) are false; functions, classes and instances of
  classes that define neither \<^verbatim>\<open>__bool__\<close> nor \<^verbatim>\<open>__len__\<close> are true.
\<close>

definition truthy :: "pyval \<Rightarrow> bool" where
  "truthy v =
     (case v of
        PNone \<Rightarrow> False
      | PBool b \<Rightarrow> b
      | PInt n \<Rightarrow> n \<noteq> 0
      | PFloat r \<Rightarrow> r \<noteq> 0
      | PStr s \<Rightarrow> s \<noteq> []
      | PList xs \<Rightarrow> xs \<noteq> []
      | PDict kvs \<Rightarrow> kvs \<noteq> []
      | PDictSubclass k kvs \<Rightarrow> kvs \<noteq> []
      | PFunction f \<Rightarrow> True
      | PClass k \<Rightarrow> True
      | PObject k n \<Rightarrow> True
      | PCallback cb j \<Rightarrow> True)"

text \<open>
  Modelled from the spec: the class \<^verbatim>\<open>Callback\<close> of \<^verbatim>\<open>BruteLoops.callback\<close> is not among the
  sources. By section 9 of the specification it is the "callback bundled with jitter via
  wrapping", one object that embeds the other: the constructor keeps the raw callback
  and the jitter it is given.
\<close>

definition Callback :: "pyval \<Rightarrow> pyval \<Rightarrow> pyval" where
  "Callback callback jitter = PCallback callback jitter"

section \<open>Exceptions\<close>

text \<open>
  The five \<^verbatim>\<open>assert\<close> statements of \<^verbatim>\<open>validate\<close>, by what they require; the last one carries
  the type its message prints. The program is run with assertions enabled.
\<close>

datatype assertion =
    Requires_process_count
  | Process_count_integer
  | Requires_db_file
  | Requires_callback
  | Handlers_dictionary pyclass

datatype exn =
    AssertionError assertion
  | TypeError
  | OSError
  | OperationalError

section \<open>The configuration object\<close>

text \<open>
  \<^verbatim>\<open>create_engine(url)\<close> connects to nothing yet; \<^verbatim>\<open>sessionmaker()\<close> configured with
  \<^verbatim>\<open>bind=engine\<close> is a session factory on that engine.
\<close>

datatype engine = Engine (url: string)

datatype sessionmaker = Sessionmaker (bind: engine)

definition create_engine :: "string \<Rightarrow> engine" where
  "create_engine u = Engine u"

text \<open>
  The attributes \<^verbatim>\<open>__init__\<close> sets, and \<^verbatim>\<open>session_maker\<close>, which only \<^verbatim>\<open>validate\<close> sets:
  \<open>None\<close> is the attribute not being there.
\<close>

record Config =
  process_count :: pyval
  authentication_callback :: pyval
  authentication_jitter :: pyval
  max_auth_jitter :: pyval
  max_auth_tries :: pyval
  stop_on_valid :: pyval
  db_file :: pyval
  log_valid :: pyval
  log_invalid :: pyval
  log_general :: pyval
  log_file :: pyval
  log_stdout :: pyval
  log_stderr :: pyval
  exception_handlers :: pyval
  log_level :: int
  validated :: bool
  session_maker :: "sessionmaker option"

text \<open>The keyword arguments of a call of the constructor: \<open>None\<close> is an argument left out.\<close>

record kwargs =
  kw_process_count :: "pyval option"
  kw_authentication_callback :: "pyval option"
  kw_authentication_jitter :: "pyval option"
  kw_max_auth_jitter :: "pyval option"
  kw_max_auth_tries :: "pyval option"
  kw_stop_on_valid :: "pyval option"
  kw_db_file :: "pyval option"
  kw_log_valid :: "pyval option"
  kw_log_invalid :: "pyval option"
  kw_log_general :: "pyval option"
  kw_log_file :: "pyval option"
  kw_log_stdout :: "pyval option"
  kw_log_stderr :: "pyval option"
  kw_exception_handlers :: "pyval option"

definition no_arguments :: kwargs where
  "no_arguments =
     \<lparr> kw_process_count = None, kw_authentication_callback = None,
       kw_authentication_jitter = None, kw_max_auth_jitter = None,
       kw_max_auth_tries = None, kw_stop_on_valid = None, kw_db_file = None,
       kw_log_valid = None, kw_log_invalid = None, kw_log_general = None,
       kw_log_file = None, kw_log_stdout = None, kw_log_stderr = None,
       kw_exception_handlers = None \<rparr>"

definition default :: "pyval \<Rightarrow> pyval option \<Rightarrow> pyval" where
  "default d a = (case a of None \<Rightarrow> d | Some v \<Rightarrow> v)"

text \<open>
  \<^verbatim>\<open>Config.__init__\<close>: every parameter with its default, \<^verbatim>\<open>log_level\<close> 90, not validated.
  The default of \<^verbatim>\<open>exception_handlers\<close> is one dictionary: \<^verbatim>\<open>{}\<close> is evaluated once, when
  the method is defined, and every call that leaves the argument out stores that same
  object. So the constructor depends on what this dictionary holds at the time of the
  call, its first argument here: no item at first, and whatever a caller has put into it
  since through the \<^verbatim>\<open>exception_handlers\<close> of an object built before. A \<^verbatim>\<open>Config\<close> of the
  model holds the values its fields have at the time of a call.
\<close>

definition Config_init :: "(pyval \<times> pyval) list \<Rightarrow> kwargs \<Rightarrow> Config" where
  "Config_init shared_default kw =
     \<lparr> process_count = default (PInt 1) (kw_process_count kw),
       authentication_callback = default PNone (kw_authentication_callback kw),
       authentication_jitter = default PNone (kw_authentication_jitter kw),
       max_auth_jitter = default PNone (kw_max_auth_jitter kw),
       max_auth_tries = default (PInt 1) (kw_max_auth_tries kw),
       stop_on_valid = default (PBool False) (kw_stop_on_valid kw),
       db_file = default PNone (kw_db_file kw),
       log_valid = default (PBool False) (kw_log_valid kw),
       log_invalid = default (PBool False) (kw_log_invalid kw),
       log_general = default (PBool False) (kw_log_general kw),
       log_file = default (PBool False) (kw_log_file kw),
       log_stdout = default (PBool False) (kw_log_stdout kw),
       log_stderr = default (PBool False) (kw_log_stderr kw),
       exception_handlers = default (PDict shared_default) (kw_exception_handlers kw),
       log_level = 90,
       validated = False,
       session_maker = None \<rparr>"

section \<open>What the program acts on\<close>

text \<open>
  The constants of \<^verbatim>\<open>BruteLoops.logging\<close> (imported as \<^verbatim>\<open>BL\<close>) are not among the sources:
  the three levels and the formatter are parameters of the model.
\<close>

datatype formatter = Formatter string

record BL =
  VALID_CREDENTIALS :: int
  CREDENTIAL_EVENTS :: int
  GENERAL_EVENTS :: int
  LOG_FORMAT :: formatter

datatype stream = Stdout | Stderr

datatype destination = To_file string | To_stream stream

text \<open>A handler of the standard \<^verbatim>\<open>logging\<close> module; a new handler has level \<^verbatim>\<open>NOTSET\<close>.\<close>

record handler =
  destination :: destination
  format :: "formatter option"
  handler_level :: int

definition NOTSET :: int where
  "NOTSET = 0"

text \<open>
  The state outside the object: the files that exist, with their lines or records;
  whether a file can be created or opened for writing at a path; the engines
  \<^verbatim>\<open>create_all\<close> has been run on, in order; and the logger \<^verbatim>\<open>brute_logger\<close>, its handlers
  and its level. The file a SQLite URL names is for SQLAlchemy to tell (it parses the
  URL: a query is not part of the name, \<^verbatim>\<open>:memory:\<close> is no file), so it is a parameter:
  \<open>sqlite_file\<close> gives the file of a URL, \<open>None\<close> for a database in memory.
\<close>

record world =
  files :: "string \<rightharpoonup> string list"
  writable :: "string \<Rightarrow> bool"
  sqlite_file :: "string \<Rightarrow> string option"
  schema_created :: "engine list"
  logger_handlers :: "handler list"
  logger_level :: int

text \<open>Opening a file for appending, or connecting to a SQLite file: it is created when missing.\<close>

definition touch :: "string \<Rightarrow> world \<Rightarrow> world" where
  "touch p w =
     (case files w p of
        None \<Rightarrow> w\<lparr>files := (files w)(p \<mapsto> [])\<rparr>
      | Some content \<Rightarrow> w)"

text \<open>
  \<^verbatim>\<open>logging.FileHandler(filename)\<close> opens the file for appending at once: a \<^verbatim>\<open>TypeError\<close>
  when the name is not a path, an \<^verbatim>\<open>OSError\<close> when the file cannot be opened.
\<close>

definition FileHandler :: "world \<Rightarrow> pyval \<Rightarrow> exn + handler \<times> world" where
  "FileHandler w filename =
     (case filename of
        PStr p \<Rightarrow>
          if writable w p
          then Inr (\<lparr>destination = To_file p, format = None, handler_level = NOTSET\<rparr>,
                    touch p w)
          else Inl OSError
      | _ \<Rightarrow> Inl TypeError)"

definition StreamHandler :: "stream \<Rightarrow> handler" where
  "StreamHandler s = \<lparr>destination = To_stream s, format = None, handler_level = NOTSET\<rparr>"

definition setFormatter :: "formatter \<Rightarrow> handler \<Rightarrow> handler" where
  "setFormatter f h = h\<lparr>format := Some f\<rparr>"

definition setLevel :: "int \<Rightarrow> handler \<Rightarrow> handler" where
  "setLevel l h = h\<lparr>handler_level := l\<rparr>"

text \<open>Every handler the program adds is a new object, so it is never one the logger has.\<close>

definition addHandler :: "handler \<Rightarrow> world \<Rightarrow> world" where
  "addHandler h w = w\<lparr>logger_handlers := logger_handlers w @ [h]\<rparr>"

definition logger_setLevel :: "int \<Rightarrow> world \<Rightarrow> world" where
  "logger_setLevel l w = w\<lparr>logger_level := l\<rparr>"

text \<open>
  \<^verbatim>\<open>sql.Base.metadata.create_all(engine)\<close> connects to the engine's database and creates
  the tables that are not there: an \<^verbatim>\<open>OperationalError\<close> when its file cannot be opened.
\<close>

definition create_all :: "engine \<Rightarrow> world \<Rightarrow> exn + world" where
  "create_all e w =
     (case sqlite_file w (url e) of
        None \<Rightarrow> Inr (w\<lparr>schema_created := schema_created w @ [e]\<rparr>)
      | Some f \<Rightarrow>
          if writable w f
          then Inr ((touch f w)\<lparr>schema_created := schema_created w @ [e]\<rparr>)
          else Inl OperationalError)"

section \<open>The methods\<close>

text \<open>
  A method returns what it raised, if anything, and the object and the world as it left
  them: an exception does not undo the assignments made before it.
\<close>

type_synonym outcome = "exn option \<times> Config \<times> world"

definition raised :: "outcome \<Rightarrow> exn option" where
  "raised r = fst r"

definition config_after :: "outcome \<Rightarrow> Config" where
  "config_after r = fst (snd r)"

definition world_after :: "outcome \<Rightarrow> world" where
  "world_after r = snd (snd r)"

text \<open>The loop over \<^verbatim>\<open>handlers\<close> in \<^verbatim>\<open>configure_logging\<close>.\<close>

primrec add_handlers :: "BL \<Rightarrow> int \<Rightarrow> handler list \<Rightarrow> world \<Rightarrow> world" where
  "add_handlers bl l [] w = w"
| "add_handlers bl l (h # hs) w =
     add_handlers bl l hs (addHandler (setLevel l (setFormatter (LOG_FORMAT bl) h)) w)"

text \<open>The three assignments to \<^verbatim>\<open>log_level\<close>, in the order of the source: the last one wins.\<close>

definition choose_level :: "BL \<Rightarrow> Config \<Rightarrow> Config" where
  "choose_level bl c =
     (let c1 = (if truthy (log_valid c) then c\<lparr>log_level := VALID_CREDENTIALS bl\<rparr> else c);
          c2 = (if truthy (log_invalid c1) then c1\<lparr>log_level := CREDENTIAL_EVENTS bl\<rparr> else c1);
          c3 = (if truthy (log_general c2) then c2\<lparr>log_level := GENERAL_EVENTS bl\<rparr> else c2)
      in c3)"

definition configure_logging :: "BL \<Rightarrow> world \<Rightarrow> Config \<Rightarrow> outcome" where
  "configure_logging bl w c =
     (if truthy (log_valid c) \<or> truthy (log_invalid c) \<or> truthy (log_general c) then
        (let c' = choose_level bl c in
         if truthy (log_file c') \<or> truthy (log_stdout c') \<or> truthy (log_stderr c') then
           (case (if truthy (log_file c')
                  then (case FileHandler w (log_file c') of
                          Inl e \<Rightarrow> Inl e
                        | Inr (h, w1) \<Rightarrow> Inr ([h], w1))
                  else Inr ([], w)) of
              Inl e \<Rightarrow> (Some e, c', w)
            | Inr (hs1, w1) \<Rightarrow>
                (let hs2 = (if truthy (log_stdout c') then hs1 @ [StreamHandler Stdout] else hs1);
                     hs3 = (if truthy (log_stderr c') then hs2 @ [StreamHandler Stderr] else hs2);
                     w2 = add_handlers bl (log_level c') hs3 w1
                 in (None, c', logger_setLevel (log_level c') w2)))
         else
           (let sh = setFormatter (LOG_FORMAT bl) (StreamHandler Stdout);
                w1 = addHandler sh w
            in (None, c', logger_setLevel (log_level c') w1)))
      else (None, c, logger_setLevel (log_level c) w))"

text \<open>
  \<^verbatim>\<open>validate\<close>: the assertions; the callback wrapped with the jitter of each attempt; the
  engine, whose tables are created when the file does not exist yet
  (\<^verbatim>\<open>'sqlite:///' + db_file\<close> is a \<^verbatim>\<open>TypeError\<close> unless \<^verbatim>\<open>db_file\<close> is a string); the session
  maker; the logger; and last the flag.
\<close>

definition validate :: "BL \<Rightarrow> world \<Rightarrow> Config \<Rightarrow> outcome" where
  "validate bl w c =
     (if \<not> truthy (process_count c) then
        (Some (AssertionError Requires_process_count), c, w)
      else if class_of (process_count c) \<noteq> C_int then
        (Some (AssertionError Process_count_integer), c, w)
      else if \<not> truthy (db_file c) then
        (Some (AssertionError Requires_db_file), c, w)
      else if \<not> truthy (authentication_callback c) then
        (Some (AssertionError Requires_callback), c, w)
      else if truthy (exception_handlers c) \<and> class_of (exception_handlers c) \<noteq> C_dict then
        (Some (AssertionError (Handlers_dictionary (class_of (exception_handlers c)))), c, w)
      else
        (let c1 = c\<lparr>authentication_callback :=
                      Callback (authentication_callback c) (authentication_jitter c)\<rparr>
         in case db_file c1 of
              PStr p \<Rightarrow>
                (let engine = create_engine (''sqlite:///'' @ p);
                     Session = Sessionmaker engine
                 in case (if files w p = None then create_all engine w else Inr w) of
                      Inl e \<Rightarrow> (Some e, c1, w)
                    | Inr w1 \<Rightarrow>
                        (let c2 = c1\<lparr>session_maker := Some Session\<rparr>
                         in case configure_logging bl w1 c2 of
                              (Some e, c3, w3) \<Rightarrow> (Some e, c3, w3)
                            | (None, c3, w3) \<Rightarrow> (None, c3\<lparr>validated := True\<rparr>, w3)))
            | _ \<Rightarrow> (Some TypeError, c1, w)))"

section \<open>Notions used in the proofs\<close>

text \<open>The five assertions of \<^verbatim>\<open>validate\<close> all hold.\<close>

definition assertions_hold :: "Config \<Rightarrow> bool" where
  "assertions_hold c =
     (truthy (process_count c) \<and> class_of (process_count c) = C_int \<and>
      truthy (db_file c) \<and> truthy (authentication_callback c) \<and>
      \<not> (truthy (exception_handlers c) \<and> class_of (exception_handlers c) \<noteq> C_dict))"

text \<open>The object after the assignment to \<^verbatim>\<open>authentication_callback\<close>.\<close>

definition wrapped :: "Config \<Rightarrow> Config" where
  "wrapped c =
     c\<lparr>authentication_callback := Callback (authentication_callback c) (authentication_jitter c)\<rparr>"

text \<open>The database made ready: the tables are created when the file does not exist yet.\<close>

definition store_ready :: "string \<Rightarrow> world \<Rightarrow> exn + world" where
  "store_ready p w =
     (if files w p = None then create_all (create_engine (''sqlite:///'' @ p)) w else Inr w)"

section \<open>A run to evaluate\<close>

text \<open>
  Levels and a format for \<^verbatim>\<open>BL\<close>; a world with no file yet, in which every file can be
  created and a URL names the file after \<^verbatim>\<open>sqlite:///\<close>; and a configuration with a
  callback and a database file, all else by default, the shared default still empty.
\<close>

definition example_BL :: BL where
  "example_BL = \<lparr>VALID_CREDENTIALS = 30, CREDENTIAL_EVENTS = 20, GENERAL_EVENTS = 10,
                  LOG_FORMAT = Formatter ''%(message)s''\<rparr>"

definition example_world :: world where
  "example_world = \<lparr>files = Map.empty, writable = (\<lambda>p. True),
                     sqlite_file = (\<lambda>u. Some (drop 10 u)), schema_created = [],
                     logger_handlers = [], logger_level = 0\<rparr>"

definition example_config :: Config where
  "example_config =
     Config_init [] (no_arguments\<lparr>kw_authentication_callback := Some (PFunction ''check''),
                               kw_db_file := Some (PStr ''attack.db'')\<rparr>)"

text \<open>The same world after an earlier run: the database is there, with a record in it.\<close>

definition resumed_world :: world where
  "resumed_world =
     example_world\<lparr>files := [''attack.db'' \<mapsto> [''admin:hunter2:failure'']],
                    schema_created := [Engine ''sqlite:///attack.db'']\<rparr>"

section \<open>How the methods run\<close>

lemma outcome_simps [simp]:
  "raised (x, c, w) = x" "config_after (x, c, w) = c" "world_after (x, c, w) = w"
  by (simp_all add: raised_def config_after_def world_after_def)

lemma choose_level_eq:
  "choose_level bl c = c\<lparr>log_level :=
      (if truthy (log_general c) then GENERAL_EVENTS bl
       else if truthy (log_invalid c) then CREDENTIAL_EVENTS bl
       else if truthy (log_valid c) then VALID_CREDENTIALS bl
       else log_level c)\<rparr>"
  by (simp add: choose_level_def Let_def)

lemma add_handlers_eq:
  "add_handlers bl l hs w =
     w\<lparr>logger_handlers := logger_handlers w @ map (\<lambda>h. setLevel l (setFormatter (LOG_FORMAT bl) h)) hs\<rparr>"
  by (induction hs arbitrary: w) (simp_all add: addHandler_def)

lemma configure_logging_config:
  "config_after (configure_logging bl w c) =
     (if truthy (log_valid c) \<or> truthy (log_invalid c) \<or> truthy (log_general c)
      then choose_level bl c else c)"
  by (simp add: configure_logging_def config_after_def Let_def split: sum.splits prod.splits)

lemma FileHandler_cases:
  "FileHandler w v = Inl TypeError \<or> FileHandler w v = Inl OSError \<or>
   (\<exists>p. v = PStr p \<and> writable w p \<and>
      FileHandler w v = Inr (\<lparr>destination = To_file p, format = None, handler_level = NOTSET\<rparr>, touch p w))"
  by (cases v) (simp_all add: FileHandler_def)

lemma configure_logging_raised:
  "raised (configure_logging bl w c) = None \<or>
   raised (configure_logging bl w c) = Some TypeError \<or>
   raised (configure_logging bl w c) = Some OSError"
  using FileHandler_cases [of w "log_file (choose_level bl c)"]
  by (auto simp add: configure_logging_def raised_def Let_def)


lemma touch_keeps:
  "files w p = Some content \<Longrightarrow> files (touch q w) p = Some content"
  by (auto simp add: touch_def split: option.splits)

lemma touch_schema: "schema_created (touch q w) = schema_created w"
  by (simp add: touch_def split: option.splits)

lemma touch_logger: "logger_handlers (touch q w) = logger_handlers w"
  by (simp add: touch_def split: option.splits)

lemma configure_logging_schema:
  "schema_created (world_after (configure_logging bl w c)) = schema_created w"
  using FileHandler_cases [of w "log_file (choose_level bl c)"]
  by (auto simp add: configure_logging_def world_after_def Let_def add_handlers_eq
      addHandler_def logger_setLevel_def touch_schema)

lemma configure_logging_files:
  "files w p = Some content \<Longrightarrow>
   files (world_after (configure_logging bl w c)) p = Some content"
  using FileHandler_cases [of w "log_file (choose_level bl c)"]
  by (auto simp add: configure_logging_def world_after_def Let_def add_handlers_eq
      addHandler_def logger_setLevel_def touch_keeps)

lemma validate_assertions_fail:
  "\<not> assertions_hold c \<Longrightarrow> \<exists>a. validate bl w c = (Some (AssertionError a), c, w)"
  by (auto simp add: validate_def assertions_hold_def)

lemma validate_not_a_string:
  assumes "assertions_hold c" and "\<And>p. db_file c \<noteq> PStr p"
  shows "validate bl w c = (Some TypeError, wrapped c, w)"
  using assms
  by (cases "db_file c") (auto simp add: validate_def assertions_hold_def wrapped_def)

lemma validate_string:
  assumes "assertions_hold c" and "db_file c = PStr p"
  shows "validate bl w c =
     (case store_ready p w of
        Inl e \<Rightarrow> (Some e, wrapped c, w)
      | Inr w1 \<Rightarrow>
          (case configure_logging bl w1
                  ((wrapped c)\<lparr>session_maker := Some (Sessionmaker (create_engine (''sqlite:///'' @ p)))\<rparr>) of
             (Some e, c3, w3) \<Rightarrow> (Some e, c3, w3)
           | (None, c3, w3) \<Rightarrow> (None, c3\<lparr>validated := True\<rparr>, w3)))"
  using assms unfolding validate_def assertions_hold_def wrapped_def store_ready_def Let_def
  by auto

lemma store_ready_raises:
  "store_ready p w = Inl x \<Longrightarrow> x = OperationalError \<and> files w p = None"
  by (auto simp add: store_ready_def create_all_def split: if_splits option.splits)

lemma store_ready_schema:
  "store_ready p w = Inr w1 \<Longrightarrow>
   schema_created w1 =
     (if files w p = None then schema_created w @ [create_engine (''sqlite:///'' @ p)]
      else schema_created w)"
  by (auto simp add: store_ready_def create_all_def touch_schema split: if_splits option.splits)

lemma store_ready_files:
  "store_ready p w = Inr w1 \<Longrightarrow> files w q = Some content \<Longrightarrow> files w1 q = Some content"
  by (auto simp add: store_ready_def create_all_def touch_keeps split: if_splits option.splits)

lemma validate_create_fails:
  assumes "assertions_hold c" and "db_file c = PStr p" and "store_ready p w = Inl x"
  shows "validate bl w c = (Some x, wrapped c, w)"
  using assms by (simp add: validate_string)

lemma validate_logging:
  assumes "assertions_hold c" and "db_file c = PStr p" and "store_ready p w = Inr w1"
    and "r = configure_logging bl w1
               ((wrapped c)\<lparr>session_maker := Some (Sessionmaker (create_engine (''sqlite:///'' @ p)))\<rparr>)"
  shows "validate bl w c =
           (raised r,
            if raised r = None then (config_after r)\<lparr>validated := True\<rparr> else config_after r,
            world_after r)"
proof -
  obtain x c3 w3 where r3: "r = (x, c3, w3)"
    by (cases r) auto
  show ?thesis
    using r3 unfolding validate_string [OF assms(1,2)] assms(3,4)
    by (cases x) (auto simp add: raised_def config_after_def world_after_def)
qed

text \<open>
  The ways a run of \<^verbatim>\<open>validate\<close> can go: an assertion fails; \<^verbatim>\<open>db_file\<close> is not a string;
  the tables cannot be created; or \<^verbatim>\<open>configure_logging\<close> is reached.
\<close>

lemma validate_runs:
  obtains
    (assertion) a where "\<not> assertions_hold c" and "validate bl w c = (Some (AssertionError a), c, w)"
  | (not_a_string) "assertions_hold c" and "\<And>p. db_file c \<noteq> PStr p"
      and "validate bl w c = (Some TypeError, wrapped c, w)"
  | (no_tables) p where "assertions_hold c" and "db_file c = PStr p" and "files w p = None"
      and "store_ready p w = Inl OperationalError"
      and "validate bl w c = (Some OperationalError, wrapped c, w)"
  | (logging) p w1 r where "assertions_hold c" and "db_file c = PStr p"
      and "store_ready p w = Inr w1"
      and "r = configure_logging bl w1
               ((wrapped c)\<lparr>session_maker := Some (Sessionmaker (create_engine (''sqlite:///'' @ p)))\<rparr>)"
      and "validate bl w c =
           (raised r,
            if raised r = None then (config_after r)\<lparr>validated := True\<rparr> else config_after r,
            world_after r)"
proof (cases "assertions_hold c")
  case False
  then show ?thesis
    using validate_assertions_fail [of c bl w] assertion by blast
next
  case hold: True
  show ?thesis
  proof (cases "\<exists>p. db_file c = PStr p")
    case False
    then show ?thesis
      using validate_not_a_string [OF hold, of bl w] not_a_string hold by blast
  next
    case True
    then obtain p where p: "db_file c = PStr p" by blast
    show ?thesis
    proof (cases "store_ready p w")
      case (Inl x)
      then show ?thesis
        using validate_create_fails [OF hold p Inl, of bl] store_ready_raises [OF Inl]
          no_tables [OF hold p] by simp
    next
      case (Inr w1)
      show ?thesis
        using logging [OF hold p Inr refl] validate_logging [OF hold p Inr refl, of bl]
        by blast
    qed
  qed
qed

lemma validate_hold_no_assertion:
  assumes "assertions_hold c"
  shows "raised (validate bl w c) \<noteq> Some (AssertionError a)"
proof (cases rule: validate_runs [of c bl w])
  case (assertion a)
  then show ?thesis using assms by simp
next
  case not_a_string
  then show ?thesis by simp
next
  case (no_tables p)
  then show ?thesis by simp
next
  case (logging p w1 r)
  then show ?thesis
    using configure_logging_raised [of bl w1
        "(wrapped c)\<lparr>session_maker := Some (Sessionmaker (create_engine (''sqlite:///'' @ p)))\<rparr>"]
    by auto
qed

lemma validate_assertion:
  assumes "raised (validate bl w c) = Some (AssertionError a)"
  shows "validate bl w c = (Some (AssertionError a), c, w)"
proof -
  have "\<not> assertions_hold c"
    using assms validate_hold_no_assertion by blast
  then obtain a' where "validate bl w c = (Some (AssertionError a'), c, w)"
    using validate_assertions_fail by blast
  with assms show ?thesis by (simp add: raised_def)
qed

lemma validate_first_assertion:
  "\<not> assertions_hold c \<Longrightarrow>
   raised (validate bl w c) =
     Some (AssertionError
       (if \<not> truthy (process_count c) then Requires_process_count
        else if class_of (process_count c) \<noteq> C_int then Process_count_integer
        else if \<not> truthy (db_file c) then Requires_db_file
        else if \<not> truthy (authentication_callback c) then Requires_callback
        else Handlers_dictionary (class_of (exception_handlers c))))"
  by (auto simp add: validate_def assertions_hold_def raised_def)

lemma validate_assertion_iff:
  "(\<exists>a. raised (validate bl w c) = Some (AssertionError a)) = (\<not> assertions_hold c)"
  using validate_hold_no_assertion [of c bl w] validate_first_assertion [of c bl w]
  by auto


lemma choose_level_max_auth_tries:
  "choose_level bl (c\<lparr>max_auth_tries := v\<rparr>) = (choose_level bl c)\<lparr>max_auth_tries := v\<rparr>"
  by (simp add: choose_level_eq)

lemma configure_logging_max_auth_tries:
  "configure_logging bl w (c\<lparr>max_auth_tries := v\<rparr>) =
     (raised (configure_logging bl w c),
      (config_after (configure_logging bl w c))\<lparr>max_auth_tries := v\<rparr>,
      world_after (configure_logging bl w c))"
  unfolding configure_logging_def choose_level_max_auth_tries Let_def
  by (auto split: sum.splits prod.splits)


lemma validate_schema_created:
  "schema_created (world_after (validate bl w c)) = schema_created w \<or>
   (\<exists>q. db_file c = PStr q \<and> files w q = None \<and>
        schema_created (world_after (validate bl w c)) =
          schema_created w @ [create_engine (''sqlite:///'' @ q)])"
proof (cases rule: validate_runs [of c bl w])
  case (assertion a)
  then show ?thesis by simp
next
  case not_a_string
  then show ?thesis by simp
next
  case (no_tables p)
  then show ?thesis by simp
next
  case (logging p w1 r)
  then show ?thesis
    using store_ready_schema [OF logging(3)]
    by (auto simp add: configure_logging_schema split: if_splits)
qed

lemma validate_files:
  assumes "files w p = Some content"
  shows "files (world_after (validate bl w c)) p = Some content"
proof (cases rule: validate_runs [of c bl w])
  case (assertion a)
  then show ?thesis using assms by simp
next
  case not_a_string
  then show ?thesis using assms by simp
next
  case (no_tables q)
  then show ?thesis using assms by simp
next
  case (logging q w1 r)
  then show ?thesis
    using store_ready_files [OF logging(3) assms]
    by (simp add: configure_logging_files)
qed

lemma validate_session_maker:
  assumes "raised (validate bl w c) = None"
  shows "\<exists>p. db_file c = PStr p \<and>
    session_maker (config_after (validate bl w c)) =
      Some (Sessionmaker (create_engine (''sqlite:///'' @ p)))"
proof (cases rule: validate_runs [of c bl w])
  case (logging q w1 r)
  then show ?thesis
    using assms by (auto simp add: configure_logging_config choose_level_eq wrapped_def)
qed (use assms in simp_all)

lemma validate_wraps:
  assumes "raised (validate bl w c) = None"
  shows "(config_after (validate bl w c))
           \<lparr>session_maker := session_maker c, log_level := log_level c, validated := validated c\<rparr> =
         wrapped c"
proof (cases rule: validate_runs [of c bl w])
  case (logging q w1 r)
  then show ?thesis
    using assms by (auto simp add: configure_logging_config choose_level_eq wrapped_def)
qed (use assms in simp_all)

text \<open>A field that neither method reads can hold anything: the run is the same.\<close>

lemma configure_logging_max_auth_jitter:
  "configure_logging bl w (c\<lparr>max_auth_jitter := v\<rparr>) =
     (raised (configure_logging bl w c),
      (config_after (configure_logging bl w c))\<lparr>max_auth_jitter := v\<rparr>,
      world_after (configure_logging bl w c))"
proof -
  have "choose_level bl (c\<lparr>max_auth_jitter := v\<rparr>) = (choose_level bl c)\<lparr>max_auth_jitter := v\<rparr>"
    by (simp add: choose_level_eq)
  then show ?thesis
    unfolding configure_logging_def Let_def
    by (auto split: sum.splits prod.splits)
qed

lemma validate_max_auth_jitter:
  "validate bl w (c\<lparr>max_auth_jitter := v\<rparr>) =
     (raised (validate bl w c),
      (config_after (validate bl w c))\<lparr>max_auth_jitter := v\<rparr>,
      world_after (validate bl w c))"
proof -
  let ?c = "c\<lparr>max_auth_jitter := v\<rparr>"
  have same: "assertions_hold ?c = assertions_hold c"
    by (simp add: assertions_hold_def)
  have wr: "wrapped ?c = (wrapped c)\<lparr>max_auth_jitter := v\<rparr>"
    by (simp add: wrapped_def)
  show ?thesis
  proof (cases rule: validate_runs [of c bl w])
    case (assertion a)
    have "raised (validate bl w ?c) = raised (validate bl w c)"
      using assertion(1) same by (simp add: validate_first_assertion)
    then have "validate bl w ?c = (Some (AssertionError a), ?c, w)"
      using validate_assertion [of bl w ?c a] assertion(2) by simp
    with assertion(2) show ?thesis by simp
  next
    case not_a_string
    then have "validate bl w ?c = (Some TypeError, wrapped ?c, w)"
      using validate_not_a_string [of ?c bl w] same by simp
    with not_a_string(3) show ?thesis by (simp add: wr)
  next
    case (no_tables p)
    then have "validate bl w ?c = (Some OperationalError, wrapped ?c, w)"
      using validate_create_fails [of ?c p w OperationalError bl] same by simp
    with no_tables(5) show ?thesis by (simp add: wr)
  next
    case (logging p w1 r)
    have arg: "(wrapped ?c)\<lparr>session_maker := s\<rparr> =
               ((wrapped c)\<lparr>session_maker := s\<rparr>)\<lparr>max_auth_jitter := v\<rparr>" for s
      by (simp add: wr)
    have "validate bl w ?c =
           (raised r, if raised r = None then (config_after r)\<lparr>validated := True, max_auth_jitter := v\<rparr>
                      else (config_after r)\<lparr>max_auth_jitter := v\<rparr>, world_after r)"
      using validate_logging [of ?c p w w1 _ bl, OF _ _ logging(3) refl] logging(1,2,4) same
      unfolding arg configure_logging_max_auth_jitter
      by simp
    with logging(5) show ?thesis by simp
  qed
qed

lemma configure_logging_fallback:
  assumes "truthy (log_valid c) \<or> truthy (log_invalid c) \<or> truthy (log_general c)"
    and "\<not> truthy (log_file c)" and "\<not> truthy (log_stdout c)" and "\<not> truthy (log_stderr c)"
  shows "configure_logging bl w c =
     (None, choose_level bl c,
      w\<lparr>logger_handlers := logger_handlers w @
           [\<lparr>destination = To_stream Stdout, format = Some (LOG_FORMAT bl),
             handler_level = NOTSET\<rparr>],
        logger_level := log_level (choose_level bl c)\<rparr>)"
  using assms
  by (simp add: configure_logging_def Let_def choose_level_eq addHandler_def logger_setLevel_def
      setFormatter_def StreamHandler_def)

lemma configure_logging_streams:
  assumes "truthy (log_valid c) \<or> truthy (log_invalid c) \<or> truthy (log_general c)"
    and "\<not> truthy (log_file c)" and "truthy (log_stdout c) \<or> truthy (log_stderr c)"
  shows "configure_logging bl w c =
     (None, choose_level bl c,
      w\<lparr>logger_handlers := logger_handlers w @
           map (\<lambda>d. \<lparr>destination = d, format = Some (LOG_FORMAT bl),
                     handler_level = log_level (choose_level bl c)\<rparr>)
             ((if truthy (log_stdout c) then [To_stream Stdout] else []) @
              (if truthy (log_stderr c) then [To_stream Stderr] else [])),
        logger_level := log_level (choose_level bl c)\<rparr>)"
  using assms
  by (auto simp add: configure_logging_def Let_def choose_level_eq add_handlers_eq
      logger_setLevel_def setFormatter_def setLevel_def StreamHandler_def)

lemma configure_logging_file:
  assumes "truthy (log_valid c) \<or> truthy (log_invalid c) \<or> truthy (log_general c)"
    and "log_file c = PStr p" and "p \<noteq> []" and "writable w p"
  shows "configure_logging bl w c =
     (None, choose_level bl c,
      (touch p w)\<lparr>logger_handlers := logger_handlers w @
           map (\<lambda>d. \<lparr>destination = d, format = Some (LOG_FORMAT bl),
                     handler_level = log_level (choose_level bl c)\<rparr>)
             ([To_file p] @
              (if truthy (log_stdout c) then [To_stream Stdout] else []) @
              (if truthy (log_stderr c) then [To_stream Stderr] else [])),
        logger_level := log_level (choose_level bl c)\<rparr>)"
  using assms
  by (auto simp add: configure_logging_def Let_def choose_level_eq add_handlers_eq
      logger_setLevel_def setFormatter_def setLevel_def StreamHandler_def FileHandler_def
      truthy_def touch_logger)

lemma configure_logging_file_fails:
  assumes "truthy (log_valid c) \<or> truthy (log_invalid c) \<or> truthy (log_general c)"
    and "truthy (log_file c)" and "\<not> (\<exists>p. log_file c = PStr p \<and> writable w p)"
  shows "configure_logging bl w c =
     (Some (if class_of (log_file c) = C_str then OSError else TypeError), choose_level bl c, w)"
  using assms
  by (cases "log_file c")
     (auto simp add: configure_logging_def Let_def choose_level_eq FileHandler_def class_of_def)

text \<open>
  The fields of a \<^verbatim>\<open>Config\<close> built with no arguments, whatever the shared default holds,
  and \<^verbatim>\<open>validate\<close> on it: the process count 1 passes, the missing \<^verbatim>\<open>db_file\<close> raises, nothing
  is changed.
\<close>

lemma constructor_defaults:
  "Config_init shared_default no_arguments =
     \<lparr>process_count = PInt 1, authentication_callback = PNone, authentication_jitter = PNone,
      max_auth_jitter = PNone, max_auth_tries = PInt 1, stop_on_valid = PBool False,
      db_file = PNone, log_valid = PBool False, log_invalid = PBool False,
      log_general = PBool False, log_file = PBool False, log_stdout = PBool False,
      log_stderr = PBool False, exception_handlers = PDict shared_default, log_level = 90,
      validated = False, session_maker = None\<rparr> \<and>
   validate bl w (Config_init shared_default no_arguments) =
     (Some (AssertionError Requires_db_file), Config_init shared_default no_arguments, w)"
  by (simp add: Config_init_def no_arguments_def default_def validate_def truthy_def class_of_def)

lemmas example_defs =
  example_config_def example_BL_def example_world_def Config_init_def no_arguments_def
  default_def

lemmas run_defs =
  validate_def configure_logging_def choose_level_def truthy_def class_of_def Callback_def
  create_engine_def create_all_def touch_def FileHandler_def StreamHandler_def
  setFormatter_def setLevel_def addHandler_def logger_setLevel_def NOTSET_def Let_def

section \<open>The claims\<close>

text \<open>
  C1: when the authentication callback, the database file or the process count of a
  configuration is unset (\<^verbatim>\<open>None\<close>), \<^verbatim>\<open>validate\<close> raises at one of its assertions: the
  object and the world are as they were, so nothing has been dispatched, and the flag
  \<^verbatim>\<open>validated\<close> has not been set.
\<close>

theorem C1_unset_required_parameter:
  assumes "authentication_callback c = PNone \<or> db_file c = PNone \<or> process_count c = PNone"
  shows "(\<exists>a. validate bl w c = (Some (AssertionError a), c, w)) \<and>
         validated (config_after (validate bl w c)) = validated c"
proof -
  have "\<not> assertions_hold c"
    using assms by (auto simp add: assertions_hold_def truthy_def)
  then obtain a where "validate bl w c = (Some (AssertionError a), c, w)"
    using validate_assertions_fail by blast
  then show ?thesis by simp
qed

text \<open>C1 at a configuration whose process count is \<^verbatim>\<open>None\<close>.\<close>

theorem C1_unset_required_parameter_witness:
  "process_count (example_config\<lparr>process_count := PNone\<rparr>) = PNone \<and>
   (\<exists>a. validate example_BL example_world (example_config\<lparr>process_count := PNone\<rparr>) =
      (Some (AssertionError a), example_config\<lparr>process_count := PNone\<rparr>, example_world)) \<and>
   validated (config_after
      (validate example_BL example_world (example_config\<lparr>process_count := PNone\<rparr>))) = False"
  using C1_unset_required_parameter
    [of "example_config\<lparr>process_count := PNone\<rparr>" example_BL example_world]
  by (simp add: example_defs)

text \<open>
  C2, as stated, fails: a negative process count is true and of class \<^verbatim>\<open>int\<close>, so both
  assertions on it pass, and with a callback and a database file the run of \<^verbatim>\<open>validate\<close>
  completes and sets the flag.
\<close>

theorem C2_negative_process_count_accepted:
  "validate example_BL example_world (example_config\<lparr>process_count := PInt (- 4)\<rparr>) =
     (None,
      example_config\<lparr>process_count := PInt (- 4),
                     authentication_callback := PCallback (PFunction ''check'') PNone,
                     session_maker := Some (Sessionmaker (Engine ''sqlite:///attack.db'')),
                     validated := True\<rparr>,
      example_world\<lparr>files := [''attack.db'' \<mapsto> []],
                    schema_created := [Engine ''sqlite:///attack.db''],
                    logger_level := 90\<rparr>)"
  by (simp add: example_defs run_defs)

text \<open>
  C2, amended: the two assertions on \<^verbatim>\<open>process_count\<close> pass exactly when it is an integer
  of class \<^verbatim>\<open>int\<close> other than 0. For every other value (\<^verbatim>\<open>None\<close>, 0, a boolean, a float,
  a string, ...) \<^verbatim>\<open>validate\<close> raises at one of the two; a negative integer passes them.
\<close>

theorem C2_process_count_check:
  "(\<exists>n. process_count c = PInt n \<and> n \<noteq> 0) =
     (raised (validate bl w c) \<noteq> Some (AssertionError Requires_process_count) \<and>
      raised (validate bl w c) \<noteq> Some (AssertionError Process_count_integer))"
proof (cases "assertions_hold c")
  case True
  then have "\<exists>n. process_count c = PInt n \<and> n \<noteq> 0"
    by (cases "process_count c") (simp_all add: assertions_hold_def truthy_def class_of_def)
  then show ?thesis
    using validate_hold_no_assertion [OF True] by simp
next
  case False
  show ?thesis
    unfolding validate_first_assertion [OF False]
    by (cases "process_count c") (simp_all add: truthy_def class_of_def)
qed

text \<open>C2 at \<^verbatim>\<open>True\<close>, which is not of class \<^verbatim>\<open>int\<close>, and at 0.\<close>

theorem C2_process_count_check_witness:
  "raised (validate example_BL example_world (example_config\<lparr>process_count := PBool True\<rparr>)) =
     Some (AssertionError Process_count_integer) \<and>
   raised (validate example_BL example_world (example_config\<lparr>process_count := PInt 0\<rparr>)) =
     Some (AssertionError Requires_process_count)"
  using C2_process_count_check
    [of "example_config\<lparr>process_count := PBool True\<rparr>" example_BL example_world]
  by (simp add: example_defs run_defs)

text \<open>
  C3, as stated, fails: with \<^verbatim>\<open>max_auth_tries\<close> 0 the run of \<^verbatim>\<open>validate\<close> completes and
  sets the flag.
\<close>

theorem C3_max_auth_tries_zero_accepted:
  "raised (validate example_BL example_world (example_config\<lparr>max_auth_tries := PInt 0\<rparr>)) = None \<and>
   validated (config_after
     (validate example_BL example_world (example_config\<lparr>max_auth_tries := PInt 0\<rparr>))) = True"
  by (simp add: example_defs run_defs)

text \<open>
  C3, amended: \<^verbatim>\<open>validate\<close> neither reads nor writes \<^verbatim>\<open>max_auth_tries\<close>. Whatever the
  field holds, the same exception is raised or none, the world is left the same, and the
  object is left the same but for that field, which keeps its value.
\<close>

theorem C3_max_auth_tries_not_checked:
  "validate bl w (c\<lparr>max_auth_tries := v\<rparr>) =
     (raised (validate bl w c),
      (config_after (validate bl w c))\<lparr>max_auth_tries := v\<rparr>,
      world_after (validate bl w c))"
proof -
  let ?c = "c\<lparr>max_auth_tries := v\<rparr>"
  have same: "assertions_hold ?c = assertions_hold c"
    by (simp add: assertions_hold_def)
  have wr: "wrapped ?c = (wrapped c)\<lparr>max_auth_tries := v\<rparr>"
    by (simp add: wrapped_def)
  show ?thesis
  proof (cases rule: validate_runs [of c bl w])
    case (assertion a)
    have "raised (validate bl w ?c) = raised (validate bl w c)"
      using assertion(1) same by (simp add: validate_first_assertion)
    then have "validate bl w ?c = (Some (AssertionError a), ?c, w)"
      using validate_assertion [of bl w ?c a] assertion(2) by simp
    with assertion(2) show ?thesis by simp
  next
    case not_a_string
    then have "validate bl w ?c = (Some TypeError, wrapped ?c, w)"
      using validate_not_a_string [of ?c bl w] same by simp
    with not_a_string(3) show ?thesis by (simp add: wr)
  next
    case (no_tables p)
    then have "validate bl w ?c = (Some OperationalError, wrapped ?c, w)"
      using validate_create_fails [of ?c p w OperationalError bl] same by simp
    with no_tables(5) show ?thesis by (simp add: wr)
  next
    case (logging p w1 r)
    have arg: "(wrapped ?c)\<lparr>session_maker := s\<rparr> =
               ((wrapped c)\<lparr>session_maker := s\<rparr>)\<lparr>max_auth_tries := v\<rparr>" for s
      by (simp add: wr)
    have "validate bl w ?c =
           (raised r, if raised r = None then (config_after r)\<lparr>validated := True, max_auth_tries := v\<rparr>
                      else (config_after r)\<lparr>max_auth_tries := v\<rparr>, world_after r)"
      using validate_logging [of ?c p w w1 _ bl, OF _ _ logging(3) refl] logging(1,2,4) same
      unfolding arg configure_logging_max_auth_tries
      by simp
    with logging(5) show ?thesis by simp
  qed
qed




text \<open>
  C5: when the file named by \<^verbatim>\<open>db_file\<close> exists, \<^verbatim>\<open>validate\<close> does not run \<^verbatim>\<open>create_all\<close>
  and the file keeps its records; when the run completes, the session maker is bound to
  the engine of that file. The tables are created only for a file that did not exist.
\<close>

theorem C5_existing_store_not_recreated:
  "(db_file c = PStr p \<and> files w p = Some content \<longrightarrow>
      schema_created (world_after (validate bl w c)) = schema_created w \<and>
      files (world_after (validate bl w c)) p = Some content \<and>
      (raised (validate bl w c) = None \<longrightarrow>
         session_maker (config_after (validate bl w c)) =
           Some (Sessionmaker (create_engine (''sqlite:///'' @ p))))) \<and>
   (schema_created (world_after (validate bl w c)) \<noteq> schema_created w \<longrightarrow>
      (\<exists>q. db_file c = PStr q \<and> files w q = None \<and>
           schema_created (world_after (validate bl w c)) =
             schema_created w @ [create_engine (''sqlite:///'' @ q)]))"
  using validate_schema_created [where bl = bl and w = w and c = c]
    validate_files [where bl = bl and w = w and c = c and p = p and content = content]
    validate_session_maker [where bl = bl and w = w and c = c]
  by auto

text \<open>C5 in a world where the database of an earlier run is there.\<close>

theorem C5_existing_store_not_recreated_witness:
  "db_file example_config = PStr ''attack.db'' \<and>
   files resumed_world ''attack.db'' = Some [''admin:hunter2:failure''] \<and>
   raised (validate example_BL resumed_world example_config) = None \<and>
   schema_created (world_after (validate example_BL resumed_world example_config)) =
     schema_created resumed_world \<and>
   files (world_after (validate example_BL resumed_world example_config)) ''attack.db'' =
     Some [''admin:hunter2:failure''] \<and>
   session_maker (config_after (validate example_BL resumed_world example_config)) =
     Some (Sessionmaker (Engine ''sqlite:///attack.db''))"
  using C5_existing_store_not_recreated
    [where bl = example_BL and w = resumed_world and c = example_config
       and p = "''attack.db''" and content = "[''admin:hunter2:failure'']"]
  by (simp add: example_defs run_defs resumed_world_def)

text \<open>
  C6, as stated, fails: an \<^verbatim>\<open>OrderedDict\<close> with a handler in it is a dictionary, but its
  type is not \<^verbatim>\<open>dict\<close> itself, so the assertion on the handler table raises.
\<close>

theorem C6_dict_subclass_refused:
  "validate example_BL example_world
      (example_config\<lparr>exception_handlers :=
         PDictSubclass ''OrderedDict'' [(PClass ''TimeoutError'', PFunction ''retry'')]\<rparr>) =
     (Some (AssertionError (Handlers_dictionary (C_dict_subclass ''OrderedDict''))),
      example_config\<lparr>exception_handlers :=
         PDictSubclass ''OrderedDict'' [(PClass ''TimeoutError'', PFunction ''retry'')]\<rparr>,
      example_world)"
  by (simp add: example_defs run_defs)

text \<open>
  C6, amended: when \<^verbatim>\<open>exception_handlers\<close> is true (not empty) and its type is not \<^verbatim>\<open>dict\<close>
  itself, be it a list or an instance of a subclass of \<^verbatim>\<open>dict\<close>, \<^verbatim>\<open>validate\<close> raises at an
  assertion, which is the one on the handler table when the required parameters are
  there. When its type is \<^verbatim>\<open>dict\<close> itself, empty or not, or when it is false (empty),
  that assertion is not raised.
\<close>

theorem C6_handler_table_check:
  "(truthy (exception_handlers c) \<and> class_of (exception_handlers c) \<noteq> C_dict \<longrightarrow>
      (\<exists>a. validate bl w c = (Some (AssertionError a), c, w)) \<and>
      (truthy (process_count c) \<and> class_of (process_count c) = C_int \<and>
       truthy (db_file c) \<and> truthy (authentication_callback c) \<longrightarrow>
         raised (validate bl w c) =
           Some (AssertionError (Handlers_dictionary (class_of (exception_handlers c)))))) \<and>
   (exception_handlers c = PDict kvs \<longrightarrow>
      raised (validate bl w c) \<noteq> Some (AssertionError (Handlers_dictionary k))) \<and>
   (class_of (exception_handlers c) = C_dict \<or> \<not> truthy (exception_handlers c) \<longrightarrow>
      raised (validate bl w c) \<noteq> Some (AssertionError (Handlers_dictionary k)))"
proof -
  have passes: "raised (validate bl w c) \<noteq> Some (AssertionError (Handlers_dictionary k))"
    if d: "class_of (exception_handlers c) = C_dict \<or> \<not> truthy (exception_handlers c)"
  proof (cases "assertions_hold c")
    case True
    then show ?thesis by (rule validate_hold_no_assertion)
  next
    case False
    then show ?thesis
      using d unfolding validate_first_assertion [OF False]
      by (auto simp add: assertions_hold_def)
  qed
  have fails: "(\<exists>a. validate bl w c = (Some (AssertionError a), c, w)) \<and>
      (truthy (process_count c) \<and> class_of (process_count c) = C_int \<and>
       truthy (db_file c) \<and> truthy (authentication_callback c) \<longrightarrow>
         raised (validate bl w c) =
           Some (AssertionError (Handlers_dictionary (class_of (exception_handlers c)))))"
    if bad: "truthy (exception_handlers c) \<and> class_of (exception_handlers c) \<noteq> C_dict"
  proof -
    have nh: "\<not> assertions_hold c"
      using bad by (simp add: assertions_hold_def)
    show ?thesis
      using validate_assertions_fail [OF nh, of bl w]
      by (simp add: validate_first_assertion [OF nh])
  qed
  have "class_of (exception_handlers c) = C_dict" if "exception_handlers c = PDict kvs"
    using that by (simp add: class_of_def)
  then show ?thesis
    using passes fails by blast
qed

text \<open>C6 at a list of handlers, at a dictionary of handlers and at the empty dictionary.\<close>

theorem C6_handler_table_check_witness:
  "truthy (PList [PClass ''TimeoutError'']) \<and> class_of (PList [PClass ''TimeoutError'']) \<noteq> C_dict \<and>
   validate example_BL example_world
      (example_config\<lparr>exception_handlers := PList [PClass ''TimeoutError'']\<rparr>) =
     (Some (AssertionError (Handlers_dictionary C_list)),
      example_config\<lparr>exception_handlers := PList [PClass ''TimeoutError'']\<rparr>, example_world) \<and>
   raised (validate example_BL example_world
      (example_config\<lparr>exception_handlers :=
         PDict [(PClass ''TimeoutError'', PFunction ''retry'')]\<rparr>)) = None \<and>
   raised (validate example_BL example_world (example_config\<lparr>exception_handlers := PDict []\<rparr>)) =
     None"
  using C6_handler_table_check
    [where bl = example_BL and w = example_world
       and c = "example_config\<lparr>exception_handlers := PList [PClass ''TimeoutError'']\<rparr>"]
  by (simp add: example_defs run_defs)

text \<open>
  C7: when \<^verbatim>\<open>validate\<close> completes, the callback is the \<^verbatim>\<open>Callback\<close> of the callback given
  and of \<^verbatim>\<open>authentication_jitter\<close>, and both jitter fields hold what they held. The run
  does not depend on \<^verbatim>\<open>max_auth_jitter\<close>: with another value in that field the outcome
  is the same, and the field keeps its value.
\<close>

theorem C7_jitters_kept_apart:
  "(raised (validate bl w c) = None \<longrightarrow>
      authentication_callback (config_after (validate bl w c)) =
        Callback (authentication_callback c) (authentication_jitter c) \<and>
      max_auth_jitter (config_after (validate bl w c)) = max_auth_jitter c \<and>
      authentication_jitter (config_after (validate bl w c)) = authentication_jitter c) \<and>
   validate bl w (c\<lparr>max_auth_jitter := j\<rparr>) =
     (raised (validate bl w c),
      (config_after (validate bl w c))\<lparr>max_auth_jitter := j\<rparr>,
      world_after (validate bl w c))"
proof -
  have "authentication_callback (config_after (validate bl w c)) =
        Callback (authentication_callback c) (authentication_jitter c) \<and>
      max_auth_jitter (config_after (validate bl w c)) = max_auth_jitter c \<and>
      authentication_jitter (config_after (validate bl w c)) = authentication_jitter c"
    if ok: "raised (validate bl w c) = None"
  proof -
    let ?r = "(config_after (validate bl w c))
           \<lparr>session_maker := session_maker c, log_level := log_level c, validated := validated c\<rparr>"
    have "authentication_callback ?r = authentication_callback (wrapped c)"
      and "max_auth_jitter ?r = max_auth_jitter (wrapped c)"
      and "authentication_jitter ?r = authentication_jitter (wrapped c)"
      unfolding validate_wraps [OF ok] by simp_all
    then show ?thesis by (simp add: wrapped_def)
  qed
  then show ?thesis
    using validate_max_auth_jitter [where bl = bl and w = w and c = c and v = j] by blast
qed

text \<open>C7 at a configuration with two jitters.\<close>

theorem C7_jitters_kept_apart_witness:
  "raised (validate example_BL example_world
      (example_config\<lparr>authentication_jitter := PObject ''Jitter'' ''after each attempt'',
                      max_auth_jitter := PObject ''Jitter'' ''after the threshold''\<rparr>)) = None \<and>
   authentication_callback (config_after (validate example_BL example_world
      (example_config\<lparr>authentication_jitter := PObject ''Jitter'' ''after each attempt'',
                      max_auth_jitter := PObject ''Jitter'' ''after the threshold''\<rparr>))) =
     PCallback (PFunction ''check'') (PObject ''Jitter'' ''after each attempt'') \<and>
   max_auth_jitter (config_after (validate example_BL example_world
      (example_config\<lparr>authentication_jitter := PObject ''Jitter'' ''after each attempt'',
                      max_auth_jitter := PObject ''Jitter'' ''after the threshold''\<rparr>))) =
     PObject ''Jitter'' ''after the threshold''"
  using C7_jitters_kept_apart
    [where bl = example_BL and w = example_world
       and c = "example_config\<lparr>authentication_jitter := PObject ''Jitter'' ''after each attempt'',
                      max_auth_jitter := PObject ''Jitter'' ''after the threshold''\<rparr>"]
  by (simp add: example_defs run_defs)

text \<open>
  C8: after \<^verbatim>\<open>configure_logging\<close>, \<^verbatim>\<open>log_level\<close> is \<^verbatim>\<open>GENERAL_EVENTS\<close> when \<^verbatim>\<open>log_general\<close>
  is set, else \<^verbatim>\<open>CREDENTIAL_EVENTS\<close> when \<^verbatim>\<open>log_invalid\<close> is set, else
  \<^verbatim>\<open>VALID_CREDENTIALS\<close> when \<^verbatim>\<open>log_valid\<close> is set, else what it was, which is 90 for a new
  object. When none of the three is set, the method only sets the level of the logger to
  \<^verbatim>\<open>log_level\<close>: no handler is added.
\<close>

theorem C8_log_level_precedence:
  "log_level (config_after (configure_logging bl w c)) =
     (if truthy (log_general c) then GENERAL_EVENTS bl
      else if truthy (log_invalid c) then CREDENTIAL_EVENTS bl
      else if truthy (log_valid c) then VALID_CREDENTIALS bl
      else log_level c) \<and>
   log_level (Config_init shared_default kw) = 90 \<and>
   (\<not> truthy (log_valid c) \<and> \<not> truthy (log_invalid c) \<and> \<not> truthy (log_general c) \<longrightarrow>
      configure_logging bl w c = (None, c, w\<lparr>logger_level := log_level c\<rparr>))"
  by (simp add: configure_logging_config choose_level_eq Config_init_def)
     (simp add: configure_logging_def logger_setLevel_def)

text \<open>C8 at a configuration with no flag set, and at one with two flags set.\<close>

theorem C8_log_level_precedence_witness:
  "\<not> truthy (log_valid example_config) \<and> \<not> truthy (log_invalid example_config) \<and>
   \<not> truthy (log_general example_config) \<and>
   configure_logging example_BL example_world example_config =
     (None, example_config, example_world\<lparr>logger_level := 90\<rparr>) \<and>
   log_level (config_after (configure_logging example_BL example_world
      (example_config\<lparr>log_valid := PBool True, log_invalid := PBool True\<rparr>))) = 20"
  using C8_log_level_precedence
    [where bl = example_BL and w = example_world and c = example_config]
  by (simp add: example_defs run_defs config_after_def)

text \<open>
  C9, as stated, fails: with \<^verbatim>\<open>log_file=True\<close> and \<^verbatim>\<open>log_stdout=True\<close> two destinations
  are selected, but \<^verbatim>\<open>logging.FileHandler(True)\<close> raises a \<^verbatim>\<open>TypeError\<close> and no handler
  is added.
\<close>

theorem C9_file_handler_not_created:
  "configure_logging example_BL example_world
      (example_config\<lparr>log_valid := PBool True, log_file := PBool True, log_stdout := PBool True\<rparr>) =
     (Some TypeError,
      example_config\<lparr>log_valid := PBool True, log_file := PBool True, log_stdout := PBool True,
                     log_level := 30\<rparr>,
      example_world) \<and>
   logger_handlers example_world = []"
  by (simp add: example_defs run_defs)

text \<open>
  C9, amended: with one of \<^verbatim>\<open>log_valid\<close>, \<^verbatim>\<open>log_invalid\<close>, \<^verbatim>\<open>log_general\<close> set: when no
  destination is set, one handler on \<^verbatim>\<open>stdout\<close> is added, with the format and with the
  level \<^verbatim>\<open>NOTSET\<close> it was created with. When a destination is set and \<^verbatim>\<open>log_file\<close> is
  either not set or a path that can be opened, one handler for each destination set is
  added, for the file, \<^verbatim>\<open>stdout\<close> and \<^verbatim>\<open>stderr\<close> in this order, each with the format and
  with the level chosen. When \<^verbatim>\<open>log_file\<close> is set and is not a path that can be opened,
  the method raises and no handler is added.
\<close>

theorem C9_handlers_attached:
  assumes "truthy (log_valid c) \<or> truthy (log_invalid c) \<or> truthy (log_general c)"
  shows
   "(\<not> truthy (log_file c) \<and> \<not> truthy (log_stdout c) \<and> \<not> truthy (log_stderr c) \<longrightarrow>
       raised (configure_logging bl w c) = None \<and>
       logger_handlers (world_after (configure_logging bl w c)) =
         logger_handlers w @
           [\<lparr>destination = To_stream Stdout, format = Some (LOG_FORMAT bl),
             handler_level = NOTSET\<rparr>]) \<and>
    (\<not> truthy (log_file c) \<and> (truthy (log_stdout c) \<or> truthy (log_stderr c)) \<longrightarrow>
       raised (configure_logging bl w c) = None \<and>
       logger_handlers (world_after (configure_logging bl w c)) =
         logger_handlers w @
           map (\<lambda>d. \<lparr>destination = d, format = Some (LOG_FORMAT bl),
                     handler_level = log_level (config_after (configure_logging bl w c))\<rparr>)
             ((if truthy (log_stdout c) then [To_stream Stdout] else []) @
              (if truthy (log_stderr c) then [To_stream Stderr] else []))) \<and>
    (log_file c = PStr p \<and> p \<noteq> [] \<and> writable w p \<longrightarrow>
       raised (configure_logging bl w c) = None \<and>
       logger_handlers (world_after (configure_logging bl w c)) =
         logger_handlers w @
           map (\<lambda>d. \<lparr>destination = d, format = Some (LOG_FORMAT bl),
                     handler_level = log_level (config_after (configure_logging bl w c))\<rparr>)
             ([To_file p] @
              (if truthy (log_stdout c) then [To_stream Stdout] else []) @
              (if truthy (log_stderr c) then [To_stream Stderr] else []))) \<and>
    (truthy (log_file c) \<and> \<not> (\<exists>q. log_file c = PStr q \<and> writable w q) \<longrightarrow>
       raised (configure_logging bl w c) \<noteq> None \<and>
       logger_handlers (world_after (configure_logging bl w c)) = logger_handlers w)"
proof (intro conjI impI)
  assume a: "\<not> truthy (log_file c) \<and> \<not> truthy (log_stdout c) \<and> \<not> truthy (log_stderr c)"
  have r: "configure_logging bl w c =
     (None, choose_level bl c,
      w\<lparr>logger_handlers := logger_handlers w @
           [\<lparr>destination = To_stream Stdout, format = Some (LOG_FORMAT bl),
             handler_level = NOTSET\<rparr>],
        logger_level := log_level (choose_level bl c)\<rparr>)"
    using configure_logging_fallback [OF assms] a by blast
  show "raised (configure_logging bl w c) = None"
    and "logger_handlers (world_after (configure_logging bl w c)) =
         logger_handlers w @
           [\<lparr>destination = To_stream Stdout, format = Some (LOG_FORMAT bl),
             handler_level = NOTSET\<rparr>]"
    unfolding r by simp_all
next
  assume a: "\<not> truthy (log_file c) \<and> (truthy (log_stdout c) \<or> truthy (log_stderr c))"
  note r = configure_logging_streams [OF assms conjunct1 [OF a] conjunct2 [OF a], of bl w]
  show "raised (configure_logging bl w c) = None"
    and "logger_handlers (world_after (configure_logging bl w c)) =
         logger_handlers w @
           map (\<lambda>d. \<lparr>destination = d, format = Some (LOG_FORMAT bl),
                     handler_level = log_level (config_after (configure_logging bl w c))\<rparr>)
             ((if truthy (log_stdout c) then [To_stream Stdout] else []) @
              (if truthy (log_stderr c) then [To_stream Stderr] else []))"
    unfolding r by simp_all
next
  assume a: "log_file c = PStr p \<and> p \<noteq> [] \<and> writable w p"
  then have "log_file c = PStr p" and "p \<noteq> []" and "writable w p" by simp_all
  note r = configure_logging_file [OF assms this, of bl]
  show "raised (configure_logging bl w c) = None"
    and "logger_handlers (world_after (configure_logging bl w c)) =
         logger_handlers w @
           map (\<lambda>d. \<lparr>destination = d, format = Some (LOG_FORMAT bl),
                     handler_level = log_level (config_after (configure_logging bl w c))\<rparr>)
             ([To_file p] @
              (if truthy (log_stdout c) then [To_stream Stdout] else []) @
              (if truthy (log_stderr c) then [To_stream Stderr] else []))"
    unfolding r by simp_all
next
  assume a: "truthy (log_file c) \<and> \<not> (\<exists>q. log_file c = PStr q \<and> writable w q)"
  note r = configure_logging_file_fails [OF assms conjunct1 [OF a] conjunct2 [OF a], of bl]
  show "raised (configure_logging bl w c) \<noteq> None"
    and "logger_handlers (world_after (configure_logging bl w c)) = logger_handlers w"
    unfolding r by simp_all
qed

text \<open>C9 at a log file with \<^verbatim>\<open>stderr\<close>, and at no destination.\<close>

theorem C9_handlers_attached_witness:
  "truthy (log_valid (example_config\<lparr>log_valid := PBool True, log_file := PStr ''brute.log'',
                                     log_stderr := PBool True\<rparr>)) \<and>
   writable example_world ''brute.log'' \<and>
   configure_logging example_BL example_world
     (example_config\<lparr>log_valid := PBool True, log_file := PStr ''brute.log'',
                     log_stderr := PBool True\<rparr>) =
     (None,
      example_config\<lparr>log_valid := PBool True, log_file := PStr ''brute.log'',
                     log_stderr := PBool True, log_level := 30\<rparr>,
      example_world\<lparr>files := [''brute.log'' \<mapsto> []],
         logger_handlers :=
           [\<lparr>destination = To_file ''brute.log'', format = Some (Formatter ''%(message)s''),
             handler_level = 30\<rparr>,
            \<lparr>destination = To_stream Stderr, format = Some (Formatter ''%(message)s''),
             handler_level = 30\<rparr>],
         logger_level := 30\<rparr>) \<and>
   logger_handlers (world_after (configure_logging example_BL example_world
     (example_config\<lparr>log_invalid := PBool True\<rparr>))) =
     [\<lparr>destination = To_stream Stdout, format = Some (Formatter ''%(message)s''),
       handler_level = 0\<rparr>]"
  using C9_handlers_attached
    [where bl = example_BL and w = example_world and p = "''brute.log''"
       and c = "example_config\<lparr>log_valid := PBool True, log_file := PStr ''brute.log'',
                     log_stderr := PBool True\<rparr>"]
  by (simp add: example_defs run_defs)

text \<open>
  C10: the table of exception handlers of a \<^verbatim>\<open>Config\<close> built with no arguments is not
  always empty. After \<^verbatim>\<open>first = Config()\<close> and
  \<^verbatim>\<open>first.exception_handlers[TimeoutError] = retry\<close> the one default dictionary of the
  constructor holds that item, and the next \<^verbatim>\<open>Config()\<close> has it as its table; the other
  fields are the defaults, and \<^verbatim>\<open>validate\<close> raises at the assertion on \<^verbatim>\<open>db_file\<close>.
\<close>

theorem C10_default_table_shared:
  "exception_handlers (Config_init [] no_arguments) = PDict [] \<and>
   exception_handlers
     (Config_init [(PClass ''TimeoutError'', PFunction ''retry'')] no_arguments) =
     PDict [(PClass ''TimeoutError'', PFunction ''retry'')] \<and>
   truthy (exception_handlers
     (Config_init [(PClass ''TimeoutError'', PFunction ''retry'')] no_arguments)) \<and>
   raised (validate example_BL example_world
     (Config_init [(PClass ''TimeoutError'', PFunction ''retry'')] no_arguments)) =
     Some (AssertionError Requires_db_file)"
  by (simp add: Config_init_def no_arguments_def default_def validate_def truthy_def
      class_of_def)

end
